theory Spec2Isabelle
  imports Main
begin

section \<open>JavaScript values\<close>

text \<open>
  Request bodies, query strings and route parameters reach the operations of
  \<^verbatim>\<open>src/server.js\<close> as JavaScript values. Numbers are kept as integers.
\<close>

datatype jsval =
    JUndefined
  | JNull
  | JBool bool
  | JNum int
  | JStr string
  | JArr "jsval list"
  | JObj "(string \<times> jsval) list"

type_synonym jsobj = "(string \<times> jsval) list"

text \<open>
  An object is the list of its own properties, each key once. Reading a property: a
  missing property reads as \<^verbatim>\<open>undefined\<close>.
\<close>

definition field :: "jsobj \<Rightarrow> string \<Rightarrow> jsval" where
  "field obj k = (case map_of obj k of None \<Rightarrow> JUndefined | Some v \<Rightarrow> v)"

definition has_field :: "jsobj \<Rightarrow> string \<Rightarrow> bool" where
  "has_field obj k = (map_of obj k \<noteq> None)"

text \<open>The truthiness test of \<^verbatim>\<open>if (x)\<close>.\<close>

fun truthy :: "jsval \<Rightarrow> bool" where
  "truthy JUndefined = False"
| "truthy JNull = False"
| "truthy (JBool b) = b"
| "truthy (JNum n) = (n \<noteq> 0)"
| "truthy (JStr s) = (s \<noteq> [])"
| "truthy (JArr xs) = True"
| "truthy (JObj kvs) = True"

text \<open>\<^verbatim>\<open>Array.prototype.join\<close> on an array of strings.\<close>

fun join :: "string \<Rightarrow> string list \<Rightarrow> string" where
  "join sep [] = []"
| "join sep [x] = x"
| "join sep (x # y # ys) = x @ sep @ join sep (y # ys)"

text \<open>String conversion, as a template literal \<^verbatim>\<open>`${v}`\<close> performs it.\<close>

function show_nat :: "nat \<Rightarrow> string" where
  "show_nat n =
     (if n < 10 then [char_of (48 + n)]
      else show_nat (n div 10) @ [char_of (48 + n mod 10)])"
  by pat_completeness auto
termination
  by (relation "measure id") auto

definition show_int :: "int \<Rightarrow> string" where
  "show_int i = (if i < 0 then CHR ''-'' # show_nat (nat (- i)) else show_nat (nat i))"

fun js_string :: "jsval \<Rightarrow> string" where
  "js_string JUndefined = ''undefined''"
| "js_string JNull = ''null''"
| "js_string (JBool b) = (if b then ''true'' else ''false'')"
| "js_string (JNum n) = show_int n"
| "js_string (JStr s) = s"
| "js_string (JArr xs) =
     join '','' (map (\<lambda>x. if x = JUndefined \<or> x = JNull then [] else js_string x) xs)"
| "js_string (JObj kvs) = ''[object Object]''"

section \<open>Thrown values\<close>

text \<open>
  What the code throws and catches: an object read through its \<^verbatim>\<open>name\<close>,
  \<^verbatim>\<open>code\<close>, \<^verbatim>\<open>type\<close> and \<^verbatim>\<open>message\<close> properties;
  \<open>err_errors\<close> holds the messages of \<^verbatim>\<open>Object.values(error.errors)\<close>, in order.
\<close>

record jserror =
  err_name :: jsval
  err_code :: jsval
  err_type :: jsval
  err_message :: string
  err_errors :: "string list"

text \<open>The object literal \<^verbatim>\<open>{type: t, message: m}\<close>.\<close>

definition typed_error :: "string \<Rightarrow> string \<Rightarrow> jserror" where
  "typed_error t m =
     \<lparr>err_name = JUndefined, err_code = JUndefined, err_type = JStr t,
      err_message = m, err_errors = []\<rparr>"

section \<open>Documents and the store\<close>

type_synonym oid = string

text \<open>
  Modelled from the spec: the four models required from \<^verbatim>\<open>./models/*.model\<close> are
  not among the sources. The records follow section 3 of the specification (Lead,
  SalesAgent, Comment, Tag); a field holds the value it was given, an unset field is
  \<open>JUndefined\<close>, and a timestamp is \<open>JNum\<close> of the milliseconds since the epoch.
\<close>

record agent =
  agent_id :: oid
  agent_name :: jsval
  agent_email :: jsval

record lead =
  lead_id :: oid
  lead_name :: jsval
  lead_source :: jsval
  lead_salesAgent :: jsval
  lead_status :: jsval
  lead_tags :: jsval
  lead_timeToClose :: jsval
  lead_priority :: jsval
  lead_closedAt :: jsval

record comment =
  comment_id :: oid
  comment_lead :: jsval
  comment_commentText :: jsval
  comment_author :: jsval
  comment_createdAt :: jsval

record tag =
  tag_id :: oid
  tag_name :: jsval

text \<open>The calls the operations make on the persistence adapter.\<close>

datatype dbcall =
    SalesAgent_findById_call
  | SalesAgent_save_call
  | SalesAgent_find_call
  | Lead_findById_call
  | Lead_save_call
  | Lead_find_call
  | Lead_findByIdAndUpdate_call
  | Lead_findByIdAndDelete_call
  | Comment_save_call
  | Comment_find_call
  | Tag_save_call
  | Tag_find_call

text \<open>
  The store: one collection per entity, in the order the store returns its documents,
  and the log of the adapter calls issued so far.
\<close>

record store =
  Leads :: "lead list"
  SalesAgents :: "agent list"
  Comments :: "comment list"
  Tags :: "tag list"
  oplog :: "dbcall list"

text \<open>
  What an operation does not decide itself, for one call of it:
  \<^item> \<open>isValid\<close>: \<^verbatim>\<open>mongoose.Types.ObjectId.isValid\<close>;
  \<^item> \<open>now\<close>: the clock (\<^verbatim>\<open>Date.now()\<close>, \<^verbatim>\<open>new Date()\<close>), in milliseconds;
  \<^item> \<open>setDateBack\<close>: the calendar of the server's time zone: \<open>setDateBack n t\<close> is the
    time value of a Date that held \<open>t\<close>, after \<^verbatim>\<open>d.setDate(d.getDate() - n)\<close>;
  \<^item> \<open>genId\<close>: the identifier a document constructor gives the new document;
  \<^item> \<open>faults\<close>: the error the driver raises at a call, if any (connection loss, cast
    failure, ...);
  \<^item> the schemas' validators, which give the messages of the violated paths (the schemas
    are not among the sources), and the match of a Lead against a query object.
\<close>

record env =
  isValid :: "jsval \<Rightarrow> bool"
  now :: int
  setDateBack :: "int \<Rightarrow> int \<Rightarrow> int"
  genId :: oid
  faults :: "dbcall \<Rightarrow> jserror option"
  leadErrors :: "lead \<Rightarrow> string list"
  leadUpdateErrors :: "jsobj \<Rightarrow> string list"
  agentErrors :: "agent \<Rightarrow> string list"
  commentErrors :: "comment \<Rightarrow> string list"
  tagErrors :: "tag \<Rightarrow> string list"
  leadMatches :: "jsobj \<Rightarrow> lead \<Rightarrow> bool"

type_synonym 'a outcome = "(jserror + 'a) \<times> store"

section \<open>The persistence adapter\<close>

text \<open>
  Modelled from the spec: the persistence adapter is an external collaborator (section 2):
  a collection per entity with find, insert, update and delete, equality and range
  filters, and the resolution of a reference. Every call is logged; a driver fault is
  raised by the call it is attached to; a save validates before it writes.
\<close>

definition logged :: "dbcall \<Rightarrow> store \<Rightarrow> store" where
  "logged c s = s\<lparr>oplog := oplog s @ [c]\<rparr>"

definition ValidationError :: "string list \<Rightarrow> jserror" where
  "ValidationError msgs =
     \<lparr>err_name = JStr ''ValidationError'', err_code = JUndefined, err_type = JUndefined,
      err_message = ''Validation failed: '' @ join '', '' msgs, err_errors = msgs\<rparr>"

definition DuplicateKeyError :: jserror where
  "DuplicateKeyError =
     \<lparr>err_name = JStr ''MongoServerError'', err_code = JNum 11000, err_type = JUndefined,
      err_message = ''E11000 duplicate key error'', err_errors = []\<rparr>"

definition SalesAgent_findById :: "env \<Rightarrow> jsval \<Rightarrow> store \<Rightarrow> agent option outcome" where
  "SalesAgent_findById e v s =
     (case faults e SalesAgent_findById_call of
        Some err \<Rightarrow> (Inl err, logged SalesAgent_findById_call s)
      | None \<Rightarrow>
          (Inr (find (\<lambda>a. JStr (agent_id a) = v) (SalesAgents s)),
           logged SalesAgent_findById_call s))"

definition Lead_findById :: "env \<Rightarrow> jsval \<Rightarrow> store \<Rightarrow> lead option outcome" where
  "Lead_findById e v s =
     (case faults e Lead_findById_call of
        Some err \<Rightarrow> (Inl err, logged Lead_findById_call s)
      | None \<Rightarrow>
          (Inr (find (\<lambda>l. JStr (lead_id l) = v) (Leads s)), logged Lead_findById_call s))"

definition Lead_save :: "env \<Rightarrow> lead \<Rightarrow> store \<Rightarrow> lead outcome" where
  "Lead_save e doc s =
     (if leadErrors e doc \<noteq> [] then
        (Inl (ValidationError (leadErrors e doc)), logged Lead_save_call s)
      else case faults e Lead_save_call of
        Some err \<Rightarrow> (Inl err, logged Lead_save_call s)
      | None \<Rightarrow> (Inr doc, logged Lead_save_call (s\<lparr>Leads := Leads s @ [doc]\<rparr>)))"

text \<open>
  \<^verbatim>\<open>Lead.find(query).populate('salesAgent', 'name')\<close>: the referenced agent's
  identifier and name stand in for the reference, \<^verbatim>\<open>null\<close> when it resolves to nothing.
\<close>

definition populate_salesAgent :: "store \<Rightarrow> lead \<Rightarrow> lead" where
  "populate_salesAgent s l =
     l\<lparr>lead_salesAgent :=
        (case find (\<lambda>a. JStr (agent_id a) = lead_salesAgent l) (SalesAgents s) of
           None \<Rightarrow> JNull
         | Some a \<Rightarrow> JObj [(''_id'', JStr (agent_id a)), (''name'', agent_name a)])\<rparr>"

definition Lead_find_populate :: "env \<Rightarrow> jsobj \<Rightarrow> store \<Rightarrow> lead list outcome" where
  "Lead_find_populate e query s =
     (case faults e Lead_find_call of
        Some err \<Rightarrow> (Inl err, logged Lead_find_call s)
      | None \<Rightarrow>
          (Inr (map (populate_salesAgent s) (filter (leadMatches e query) (Leads s))),
           logged Lead_find_call s))"

text \<open>\<^verbatim>\<open>Lead.find({closedAt: {$gte: t}})\<close>: an unset closedAt matches no bound.\<close>

definition closedAt_gte :: "int \<Rightarrow> lead \<Rightarrow> bool" where
  "closedAt_gte t l = (case lead_closedAt l of JNum c \<Rightarrow> t \<le> c | _ \<Rightarrow> False)"

definition Lead_find_closedAt_gte :: "env \<Rightarrow> int \<Rightarrow> store \<Rightarrow> lead list outcome" where
  "Lead_find_closedAt_gte e t s =
     (case faults e Lead_find_call of
        Some err \<Rightarrow> (Inl err, logged Lead_find_call s)
      | None \<Rightarrow> (Inr (filter (closedAt_gte t) (Leads s)), logged Lead_find_call s))"

text \<open>\<^verbatim>\<open>Lead.find({status: {$ne: v}})\<close>.\<close>

definition Lead_find_status_ne :: "env \<Rightarrow> jsval \<Rightarrow> store \<Rightarrow> lead list outcome" where
  "Lead_find_status_ne e v s =
     (case faults e Lead_find_call of
        Some err \<Rightarrow> (Inl err, logged Lead_find_call s)
      | None \<Rightarrow> (Inr (filter (\<lambda>l. lead_status l \<noteq> v) (Leads s)), logged Lead_find_call s))"

text \<open>
  \<^verbatim>\<open>{$set: dataToUpdate}\<close> on a Lead: each path of the Lead that the update supplies
  takes the supplied value, every other path keeps its value.
\<close>

definition set_path :: "jsobj \<Rightarrow> string \<Rightarrow> jsval \<Rightarrow> jsval" where
  "set_path u k old = (if has_field u k then field u k else old)"

definition apply_set :: "jsobj \<Rightarrow> lead \<Rightarrow> lead" where
  "apply_set u l =
     l\<lparr>lead_name := set_path u ''name'' (lead_name l),
       lead_source := set_path u ''source'' (lead_source l),
       lead_salesAgent := set_path u ''salesAgent'' (lead_salesAgent l),
       lead_status := set_path u ''status'' (lead_status l),
       lead_tags := set_path u ''tags'' (lead_tags l),
       lead_timeToClose := set_path u ''timeToClose'' (lead_timeToClose l),
       lead_priority := set_path u ''priority'' (lead_priority l),
       lead_closedAt := set_path u ''closedAt'' (lead_closedAt l)\<rparr>"

text \<open>Reading a path of a Lead by its name, and the paths of a Lead (section 3).\<close>

definition lead_paths :: "string list" where
  "lead_paths =
     [''name'', ''source'', ''salesAgent'', ''status'', ''tags'', ''timeToClose'', ''priority'',
      ''closedAt'']"

definition lead_path :: "string \<Rightarrow> lead \<Rightarrow> jsval" where
  "lead_path k l =
     (if k = ''name'' then lead_name l
      else if k = ''source'' then lead_source l
      else if k = ''salesAgent'' then lead_salesAgent l
      else if k = ''status'' then lead_status l
      else if k = ''tags'' then lead_tags l
      else if k = ''timeToClose'' then lead_timeToClose l
      else if k = ''priority'' then lead_priority l
      else if k = ''closedAt'' then lead_closedAt l
      else JUndefined)"

fun update_first :: "('a \<Rightarrow> bool) \<Rightarrow> ('a \<Rightarrow> 'a) \<Rightarrow> 'a list \<Rightarrow> 'a list" where
  "update_first P f [] = []"
| "update_first P f (x # xs) = (if P x then f x # xs else x # update_first P f xs)"

fun remove_first :: "('a \<Rightarrow> bool) \<Rightarrow> 'a list \<Rightarrow> 'a list" where
  "remove_first P [] = []"
| "remove_first P (x # xs) = (if P x then xs else x # remove_first P xs)"

text \<open>
  \<^verbatim>\<open>Lead.findByIdAndUpdate(leadId, {$set: dataToUpdate}, {new: true, runValidators: true})\<close>:
  the update is validated, then applied to the document with that identifier, and the
  updated document is returned; \<^verbatim>\<open>null\<close> when there is none.
\<close>

definition Lead_findByIdAndUpdate ::
  "env \<Rightarrow> jsval \<Rightarrow> jsobj \<Rightarrow> store \<Rightarrow> lead option outcome" where
  "Lead_findByIdAndUpdate e v dataToUpdate s =
     (if leadUpdateErrors e dataToUpdate \<noteq> [] then
        (Inl (ValidationError (leadUpdateErrors e dataToUpdate)),
         logged Lead_findByIdAndUpdate_call s)
      else case faults e Lead_findByIdAndUpdate_call of
        Some err \<Rightarrow> (Inl err, logged Lead_findByIdAndUpdate_call s)
      | None \<Rightarrow>
          (Inr (map_option (apply_set dataToUpdate)
                  (find (\<lambda>l. JStr (lead_id l) = v) (Leads s))),
           logged Lead_findByIdAndUpdate_call
             (s\<lparr>Leads := update_first (\<lambda>l. JStr (lead_id l) = v)
                            (apply_set dataToUpdate) (Leads s)\<rparr>)))"

definition Lead_findByIdAndDelete :: "env \<Rightarrow> jsval \<Rightarrow> store \<Rightarrow> lead option outcome" where
  "Lead_findByIdAndDelete e v s =
     (case faults e Lead_findByIdAndDelete_call of
        Some err \<Rightarrow> (Inl err, logged Lead_findByIdAndDelete_call s)
      | None \<Rightarrow>
          (Inr (find (\<lambda>l. JStr (lead_id l) = v) (Leads s)),
           logged Lead_findByIdAndDelete_call
             (s\<lparr>Leads := remove_first (\<lambda>l. JStr (lead_id l) = v) (Leads s)\<rparr>)))"

text \<open>Saving an agent: the email is unique across the collection (section 3).\<close>

definition SalesAgent_save :: "env \<Rightarrow> agent \<Rightarrow> store \<Rightarrow> agent outcome" where
  "SalesAgent_save e doc s =
     (if agentErrors e doc \<noteq> [] then
        (Inl (ValidationError (agentErrors e doc)), logged SalesAgent_save_call s)
      else case faults e SalesAgent_save_call of
        Some err \<Rightarrow> (Inl err, logged SalesAgent_save_call s)
      | None \<Rightarrow>
          if agent_email doc \<in> agent_email ` set (SalesAgents s) then
            (Inl DuplicateKeyError, logged SalesAgent_save_call s)
          else
            (Inr doc, logged SalesAgent_save_call (s\<lparr>SalesAgents := SalesAgents s @ [doc]\<rparr>)))"

definition SalesAgent_find :: "env \<Rightarrow> store \<Rightarrow> agent list outcome" where
  "SalesAgent_find e s =
     (case faults e SalesAgent_find_call of
        Some err \<Rightarrow> (Inl err, logged SalesAgent_find_call s)
      | None \<Rightarrow> (Inr (SalesAgents s), logged SalesAgent_find_call s))"

definition Comment_save :: "env \<Rightarrow> comment \<Rightarrow> store \<Rightarrow> comment outcome" where
  "Comment_save e doc s =
     (if commentErrors e doc \<noteq> [] then
        (Inl (ValidationError (commentErrors e doc)), logged Comment_save_call s)
      else case faults e Comment_save_call of
        Some err \<Rightarrow> (Inl err, logged Comment_save_call s)
      | None \<Rightarrow> (Inr doc, logged Comment_save_call (s\<lparr>Comments := Comments s @ [doc]\<rparr>)))"

text \<open>
  \<^verbatim>\<open>Comment.find({lead: leadId}).populate('author')\<close>: the author's whole record
  stands in for the reference, \<^verbatim>\<open>null\<close> when it resolves to nothing.
\<close>

definition populate_author :: "store \<Rightarrow> comment \<Rightarrow> comment" where
  "populate_author s c =
     c\<lparr>comment_author :=
        (case find (\<lambda>a. JStr (agent_id a) = comment_author c) (SalesAgents s) of
           None \<Rightarrow> JNull
         | Some a \<Rightarrow>
             JObj [(''_id'', JStr (agent_id a)), (''name'', agent_name a),
                   (''email'', agent_email a)])\<rparr>"

definition Comment_find_populate :: "env \<Rightarrow> jsval \<Rightarrow> store \<Rightarrow> comment list outcome" where
  "Comment_find_populate e leadId s =
     (case faults e Comment_find_call of
        Some err \<Rightarrow> (Inl err, logged Comment_find_call s)
      | None \<Rightarrow>
          (Inr (map (populate_author s) (filter (\<lambda>c. comment_lead c = leadId) (Comments s))),
           logged Comment_find_call s))"

text \<open>Saving a tag: the name is unique across the collection (section 3).\<close>

definition Tag_save :: "env \<Rightarrow> tag \<Rightarrow> store \<Rightarrow> tag outcome" where
  "Tag_save e doc s =
     (if tagErrors e doc \<noteq> [] then
        (Inl (ValidationError (tagErrors e doc)), logged Tag_save_call s)
      else case faults e Tag_save_call of
        Some err \<Rightarrow> (Inl err, logged Tag_save_call s)
      | None \<Rightarrow>
          if tag_name doc \<in> tag_name ` set (Tags s) then
            (Inl DuplicateKeyError, logged Tag_save_call s)
          else (Inr doc, logged Tag_save_call (s\<lparr>Tags := Tags s @ [doc]\<rparr>)))"

definition Tag_find :: "env \<Rightarrow> store \<Rightarrow> tag list outcome" where
  "Tag_find e s =
     (case faults e Tag_find_call of
        Some err \<Rightarrow> (Inl err, logged Tag_find_call s)
      | None \<Rightarrow> (Inr (Tags s), logged Tag_find_call s))"

text \<open>
  The other constructors. Modelled from the spec: a Comment's createdAt is set when it
  is constructed (section 3).
\<close>

definition new_SalesAgent :: "env \<Rightarrow> jsval \<Rightarrow> jsval \<Rightarrow> agent" where
  "new_SalesAgent e name email = \<lparr>agent_id = genId e, agent_name = name, agent_email = email\<rparr>"

definition new_Comment :: "env \<Rightarrow> jsval \<Rightarrow> jsval \<Rightarrow> jsval \<Rightarrow> comment" where
  "new_Comment e leadId commentText author =
     \<lparr>comment_id = genId e, comment_lead = leadId, comment_commentText = commentText,
      comment_author = author, comment_createdAt = JNum (now e)\<rparr>"

definition new_Tag :: "env \<Rightarrow> jsval \<Rightarrow> tag" where
  "new_Tag e name = \<lparr>tag_id = genId e, tag_name = name\<rparr>"

section \<open>Lead operations\<close>

text \<open>
  \<^verbatim>\<open>new Lead({...})\<close>. Modelled from the spec: the constructor gives the document
  its identifier and the default status New (section 3); \<^verbatim>\<open>salesAgent\<close> is handed the
  agent's document and keeps its identifier.
\<close>

definition new_Lead ::
  "env \<Rightarrow> jsval \<Rightarrow> jsval \<Rightarrow> agent \<Rightarrow> jsval \<Rightarrow> jsval \<Rightarrow> jsval \<Rightarrow> jsval \<Rightarrow> lead" where
  "new_Lead e name source salesAgentData status tags timeToClose priority =
     \<lparr>lead_id = genId e, lead_name = name, lead_source = source,
      lead_salesAgent = JStr (agent_id salesAgentData),
      lead_status = (if status = JUndefined then JStr ''New'' else status),
      lead_tags = tags, lead_timeToClose = timeToClose, lead_priority = priority,
      lead_closedAt = JUndefined\<rparr>"

text \<open>
  The catch block shared by \<^verbatim>\<open>createNewLead\<close>, \<^verbatim>\<open>updateLead\<close> and
  \<^verbatim>\<open>addComments\<close>: a ValidationError is rethrown as INVALID_INPUT, anything else as it is.
\<close>

definition rethrow :: "jserror \<Rightarrow> jserror" where
  "rethrow error =
     (if err_name error = JStr ''ValidationError'' then
        typed_error ''INVALID_INPUT'' (''Invalid Input: '' @ join ''. '' (err_errors error))
      else error)"

definition catching :: "(jserror \<Rightarrow> jserror) \<Rightarrow> 'a outcome \<Rightarrow> 'a outcome" where
  "catching h r = (case r of (Inl err, s) \<Rightarrow> (Inl (h err), s) | (Inr v, s) \<Rightarrow> (Inr v, s))"

text \<open>The body of the try block of \<^verbatim>\<open>createNewLead\<close> (lines 24 to 51).\<close>

definition createNewLead_try :: "env \<Rightarrow> jsobj \<Rightarrow> store \<Rightarrow> lead outcome" where
  "createNewLead_try e leadDetails s =
     (let name = field leadDetails ''name'';
          source = field leadDetails ''source'';
          salesAgent = field leadDetails ''salesAgent'';
          status = field leadDetails ''status'';
          tags = field leadDetails ''tags'';
          timeToClose = field leadDetails ''timeToClose'';
          priority = field leadDetails ''priority''
      in if \<not> isValid e salesAgent then
           (Inl (typed_error ''INVALID_ID_FORMAT'' ''Invalid ID Format.''), s)
         else case SalesAgent_findById e salesAgent s of
             (Inl err, s1) \<Rightarrow> (Inl err, s1)
           | (Inr (Some salesAgentData), s1) \<Rightarrow>
               (let newLead = new_Lead e name source salesAgentData status tags timeToClose priority;
                    newLead = (if status = JStr ''Closed''
                               then newLead\<lparr>lead_closedAt := JNum (now e)\<rparr> else newLead)
                in Lead_save e newLead s1)
           | (Inr None, s1) \<Rightarrow>
               (Inl (typed_error ''NOT_FOUND''
                      (''Sales agent with ID '' @ js_string salesAgent @ '' not found.'')), s1))"

definition createNewLead :: "env \<Rightarrow> jsobj \<Rightarrow> store \<Rightarrow> lead outcome" where
  "createNewLead e leadDetails s = catching rethrow (createNewLead_try e leadDetails s)"

text \<open>
  \<^verbatim>\<open>getAllLeads\<close> (lines 88 to 141). \<^verbatim>\<open>queryObj\<close> is filled but never read: the
  store is queried with \<^verbatim>\<open>query\<close> itself, so it is left out. The three messages are
  appended to \<^verbatim>\<open>errorObj.message\<close> in the order of the checks.
\<close>

definition validStatuses :: "jsval list" where
  "validStatuses =
     [JStr ''New'', JStr ''Contacted'', JStr ''Qualified'', JStr ''Proposal Sent'', JStr ''Closed'']"

definition validSources :: "jsval list" where
  "validSources =
     [JStr ''Website'', JStr ''Referral'', JStr ''Cold Call'', JStr ''Advertisement'',
      JStr ''Email'', JStr ''Other'']"

definition salesAgent_message :: string where
  "salesAgent_message = ''Invalid sales agent ObjectId.''"

definition status_message :: string where
  "status_message =
     '''status' must be one of ['New', 'Contacted', 'Qualified', 'Proposal Sent', 'Closed'].''"

definition source_message :: string where
  "source_message =
     '''source' must be one of ['Website', 'Referral', 'Cold Call', 'Advertisement', 'Email', 'Other']''"

definition filter_messages :: "env \<Rightarrow> jsobj \<Rightarrow> string" where
  "filter_messages e query =
     (let salesAgent = field query ''salesAgent'';
          status = field query ''status'';
          source = field query ''source''
      in (if truthy salesAgent \<and> \<not> isValid e salesAgent then salesAgent_message else [])
       @ (if truthy status \<and> status \<notin> set validStatuses then status_message else [])
       @ (if truthy source \<and> source \<notin> set validSources then source_message else []))"

definition getAllLeads :: "env \<Rightarrow> jsobj \<Rightarrow> store \<Rightarrow> lead list outcome" where
  "getAllLeads e query s =
     (let message = ''Invalid input: '' @ filter_messages e query
      in if message \<noteq> ''Invalid input: '' then (Inl (typed_error ''INVALID_INPUT'' message), s)
         else case Lead_find_populate e query s of
             (Inl err, s1) \<Rightarrow> (Inl err, s1)
           | (Inr allLeads, s1) \<Rightarrow>
               if allLeads \<noteq> [] then (Inr allLeads, s1)
               else (Inl (typed_error ''NOT_FOUND'' ''Lead Data Not Found.''), s1))"

text \<open>
  \<^verbatim>\<open>updateLead\<close> (lines 160 to 190). When \<^verbatim>\<open>findByIdAndUpdate\<close> gives
  \<^verbatim>\<open>null\<close> the function falls through and returns \<^verbatim>\<open>undefined\<close>: \<open>Inr None\<close>.
\<close>

definition updateLead_try :: "env \<Rightarrow> jsval \<Rightarrow> jsobj \<Rightarrow> store \<Rightarrow> lead option outcome" where
  "updateLead_try e leadId dataToUpdate s =
     (if \<not> isValid e leadId then (Inl (typed_error ''INVALID_ID_FORMAT'' ''Invalid Lead ID.''), s)
      else case Lead_findById e leadId s of
          (Inl err, s1) \<Rightarrow> (Inl err, s1)
        | (Inr (Some lead), s1) \<Rightarrow> Lead_findByIdAndUpdate e leadId dataToUpdate s1
        | (Inr None, s1) \<Rightarrow> (Inl (typed_error ''NOT_FOUND'' ''Lead Not Found.''), s1))"

definition updateLead :: "env \<Rightarrow> jsval \<Rightarrow> jsobj \<Rightarrow> store \<Rightarrow> lead option outcome" where
  "updateLead e leadId dataToUpdate s = catching rethrow (updateLead_try e leadId dataToUpdate s)"

text \<open>\<^verbatim>\<open>deleteLead\<close> (lines 213 to 231).\<close>

definition deleteLead :: "env \<Rightarrow> jsval \<Rightarrow> store \<Rightarrow> string option outcome" where
  "deleteLead e leadId s =
     (if \<not> isValid e leadId then (Inl (typed_error ''INVALID_ID_FORMAT'' ''Invalid Lead ID.''), s)
      else case Lead_findById e leadId s of
          (Inl err, s1) \<Rightarrow> (Inl err, s1)
        | (Inr (Some lead), s1) \<Rightarrow>
            (case Lead_findByIdAndDelete e leadId s1 of
               (Inl err, s2) \<Rightarrow> (Inl err, s2)
             | (Inr (Some deletedLead), s2) \<Rightarrow> (Inr (Some ''Lead deleted Successfully.''), s2)
             | (Inr None, s2) \<Rightarrow> (Inr None, s2))
        | (Inr None, s1) \<Rightarrow>
            (Inl (typed_error ''NOT_FOUND''
                   (''Lead with ID '' @ [CHR 0x27] @ js_string leadId @ [CHR 0x27] @ '' not found.'')),
             s1))"

section \<open>Sales agent operations\<close>

text \<open>
  \<^verbatim>\<open>createNewSalesAgent\<close> (lines 253 to 279). The catch block rethrows a
  ValidationError as INVALID_INPUT and an error with code 11000 as DUPLICATE_KEY; it has
  no other throw, so after any other error the function returns \<^verbatim>\<open>undefined\<close>.
\<close>

definition createNewSalesAgent :: "env \<Rightarrow> jsobj \<Rightarrow> store \<Rightarrow> agent option outcome" where
  "createNewSalesAgent e agentData s =
     (let name = field agentData ''name'';
          email = field agentData ''email''
      in case SalesAgent_save e (new_SalesAgent e name email) s of
          (Inr saveAgent, s1) \<Rightarrow> (Inr (Some saveAgent), s1)
        | (Inl error, s1) \<Rightarrow>
            if err_name error = JStr ''ValidationError'' then
              (Inl (typed_error ''INVALID_INPUT''
                     (''Invalid Input: '' @ join ''. '' (err_errors error))), s1)
            else if err_code error = JNum 11000 then
              (Inl (typed_error ''DUPLICATE_KEY''
                     (''Sales agent with email '' @ [CHR 0x27] @ js_string (field agentData ''email'')
                        @ [CHR 0x27] @ '' already exists.'' @ [CHR 0x27])), s1)
            else (Inr None, s1))"

text \<open>\<^verbatim>\<open>getAllSalesAgents\<close> (lines 303 to 314).\<close>

definition getAllSalesAgents :: "env \<Rightarrow> store \<Rightarrow> agent list outcome" where
  "getAllSalesAgents e s =
     (case SalesAgent_find e s of
        (Inl err, s1) \<Rightarrow> (Inl err, s1)
      | (Inr allSalesAgents, s1) \<Rightarrow>
          if allSalesAgents \<noteq> [] then (Inr allSalesAgents, s1)
          else (Inl (typed_error ''NOT_FOUND'' ''Sales Agents Not Found.''), s1))"

section \<open>Comment operations\<close>

text \<open>\<^verbatim>\<open>addComments\<close> (lines 334 to 366).\<close>

definition addComments_try :: "env \<Rightarrow> jsval \<Rightarrow> jsobj \<Rightarrow> store \<Rightarrow> comment outcome" where
  "addComments_try e leadId commentData s =
     (let commentText = field commentData ''commentText'';
          author = field commentData ''author''
      in if \<not> isValid e leadId then (Inl (typed_error ''INVALID_LEAD_ID'' ''Invalid Lead ID.''), s)
         else if \<not> isValid e author then
           (Inl (typed_error ''INVALID_AGENT_ID'' ''Invalid Sales Agent ID.''), s)
         else case Lead_findById e leadId s of
             (Inl err, s1) \<Rightarrow> (Inl err, s1)
           | (Inr (Some lead), s1) \<Rightarrow> Comment_save e (new_Comment e leadId commentText author) s1
           | (Inr None, s1) \<Rightarrow>
               (Inl (typed_error ''NOT_FOUND''
                      (''Lead with ID '' @ [CHR 0x27] @ js_string leadId @ [CHR 0x27]
                         @ '' not found.'')), s1))"

definition addComments :: "env \<Rightarrow> jsval \<Rightarrow> jsobj \<Rightarrow> store \<Rightarrow> comment outcome" where
  "addComments e leadId commentData s = catching rethrow (addComments_try e leadId commentData s)"

text \<open>\<^verbatim>\<open>getAllComments\<close> (lines 389 to 404).\<close>

definition getAllComments :: "env \<Rightarrow> jsval \<Rightarrow> store \<Rightarrow> comment list outcome" where
  "getAllComments e leadId s =
     (if \<not> isValid e leadId then
        (Inl (typed_error ''INVALID_ID_FORMAT'' ''Invalid Lead ID Format.''), s)
      else case Comment_find_populate e leadId s of
          (Inl err, s1) \<Rightarrow> (Inl err, s1)
        | (Inr allComments, s1) \<Rightarrow>
            if allComments \<noteq> [] then (Inr allComments, s1)
            else (Inl (typed_error ''NOT_FOUND''
                        (''Comments for lead ID '' @ [CHR 0x27] @ js_string leadId @ [CHR 0x27]
                           @ '' not found.'')), s1))"

section \<open>Reporting operations\<close>

text \<open>
  \<^verbatim>\<open>leadsClosedLastWeek\<close> (lines 427 to 441). \<^verbatim>\<open>sevenDaysAgo\<close> is
  \<^verbatim>\<open>new Date()\<close> after \<^verbatim>\<open>setDate(getDate() - 7)\<close>: the same local time of day,
  seven calendar days back in the server's time zone. That is 7 * 24 hours before the
  current time only when the local UTC offset does not change in between, so the
  calendar is left to the environment.
\<close>

definition sevenDaysAgo :: "env \<Rightarrow> int" where
  "sevenDaysAgo e = setDateBack e 7 (now e)"

definition leadsClosedLastWeek :: "env \<Rightarrow> store \<Rightarrow> lead list outcome" where
  "leadsClosedLastWeek e s =
     (case Lead_find_closedAt_gte e (sevenDaysAgo e) s of
        (Inl err, s1) \<Rightarrow> (Inl err, s1)
      | (Inr closedLeads, s1) \<Rightarrow>
          if closedLeads \<noteq> [] then (Inr closedLeads, s1)
          else (Inl (typed_error ''NOT_FOUND'' ''No Closed Leads for Last Week found.''), s1))"

text \<open>\<^verbatim>\<open>getTotalLeadsInPipeline\<close> (lines 460 to 471).\<close>

definition getTotalLeadsInPipeline :: "env \<Rightarrow> store \<Rightarrow> nat outcome" where
  "getTotalLeadsInPipeline e s =
     (case Lead_find_status_ne e (JStr ''Closed'') s of
        (Inl err, s1) \<Rightarrow> (Inl err, s1)
      | (Inr totalLeads, s1) \<Rightarrow>
          if totalLeads \<noteq> [] then (Inr (length totalLeads), s1)
          else (Inl (typed_error ''NOT_FOUND'' ''No Leads Found.''), s1))"

section \<open>Tag operations\<close>

text \<open>\<^verbatim>\<open>addNewTag\<close> (lines 491 to 513).\<close>

definition addNewTag_catch :: "jsobj \<Rightarrow> jserror \<Rightarrow> jserror" where
  "addNewTag_catch tagObj error =
     (if err_name error = JStr ''ValidationError'' then
        typed_error ''INVALID_INPUT'' (''Invalid Input: '' @ join ''. '' (err_errors error))
      else if err_name error = JStr ''MongoServerError'' \<and> err_code error = JNum 11000 then
        typed_error ''DUPLICATE_KEY''
          (''Tag with name '' @ [CHR 0x27] @ js_string (field tagObj ''name'') @ [CHR 0x27]
             @ '' already exists.'' @ [CHR 0x27])
      else error)"

definition addNewTag :: "env \<Rightarrow> jsobj \<Rightarrow> store \<Rightarrow> tag outcome" where
  "addNewTag e tagObj s =
     catching (addNewTag_catch tagObj) (Tag_save e (new_Tag e (field tagObj ''name'')) s)"

text \<open>\<^verbatim>\<open>getAllTags\<close> (lines 534 to 545).\<close>

definition getAllTags :: "env \<Rightarrow> store \<Rightarrow> tag list outcome" where
  "getAllTags e s =
     (case Tag_find e s of
        (Inl err, s1) \<Rightarrow> (Inl err, s1)
      | (Inr allTags, s1) \<Rightarrow>
          if allTags \<noteq> [] then (Inr allTags, s1)
          else (Inl (typed_error ''NOT_FOUND'' ''No Tags Found.''), s1))"

section \<open>The routes\<close>

text \<open>
  A handler answers with a status code and a JSON body, or sends nothing at all
  (\<open>None\<close>): a \<^verbatim>\<open>switch\<close> without a \<^verbatim>\<open>default\<close> that matches no case, or a
  falsy result, leaves the request unanswered.
\<close>

datatype body =
    Error_json string
  | Message_json string
  | Lead_json lead
  | Leads_json "lead list"
  | Agent_json agent
  | Agents_json "agent list"
  | Comment_json comment
  | Comments_json "comment list"
  | Tags_json "tag list"
  | Pipeline_json nat

type_synonym response = "nat \<times> body"

type_synonym handled = "response option \<times> store"

text \<open>\<^verbatim>\<open>app.post('/leads')\<close> (lines 66 to 84).\<close>

definition post_leads :: "env \<Rightarrow> jsobj \<Rightarrow> store \<Rightarrow> handled" where
  "post_leads e req_body s =
     (case createNewLead e req_body s of
        (Inr response, s1) \<Rightarrow>
          (if truthy (lead_name response) then Some (201, Lead_json response) else None, s1)
      | (Inl error, s1) \<Rightarrow>
          (if err_type error = JStr ''INVALID_ID_FORMAT'' then
             Some (400, Error_json (err_message error))
           else if err_type error = JStr ''NOT_FOUND'' then
             Some (404, Error_json (err_message error))
           else if err_type error = JStr ''INVALID_INPUT'' then
             Some (400, Error_json (err_message error))
           else Some (500, Error_json ''Server Error.''), s1))"

text \<open>\<^verbatim>\<open>app.get('/leads')\<close> (lines 143 to 157): the switch has no default case.\<close>

definition get_leads :: "env \<Rightarrow> jsobj \<Rightarrow> store \<Rightarrow> handled" where
  "get_leads e req_query s =
     (case getAllLeads e req_query s of
        (Inr allLeads, s1) \<Rightarrow> (Some (200, Leads_json allLeads), s1)
      | (Inl error, s1) \<Rightarrow>
          (if err_type error = JStr ''INVALID_INPUT'' then
             Some (400, Error_json (err_message error))
           else if err_type error = JStr ''NOT_FOUND'' then
             Some (404, Error_json (err_message error))
           else None, s1))"

text \<open>\<^verbatim>\<open>app.put('/leads/:id')\<close> (lines 192 to 210).\<close>

definition put_leads_id :: "env \<Rightarrow> string \<Rightarrow> jsobj \<Rightarrow> store \<Rightarrow> handled" where
  "put_leads_id e req_params_id req_body s =
     (case updateLead e (JStr req_params_id) req_body s of
        (Inr (Some updatedLead), s1) \<Rightarrow> (Some (200, Lead_json updatedLead), s1)
      | (Inr None, s1) \<Rightarrow> (None, s1)
      | (Inl error, s1) \<Rightarrow>
          (if err_type error = JStr ''INVALID_ID_FORMAT'' then
             Some (400, Error_json (err_message error))
           else if err_type error = JStr ''NOT_FOUND'' then
             Some (404, Error_json (err_message error))
           else if err_type error = JStr ''INVALID_INPUT'' then
             Some (400, Error_json (err_message error))
           else Some (500, Error_json ''Server Error''), s1))"

text \<open>\<^verbatim>\<open>app.delete('/leads/:id')\<close> (lines 233 to 249).\<close>

definition delete_leads_id :: "env \<Rightarrow> string \<Rightarrow> store \<Rightarrow> handled" where
  "delete_leads_id e req_params_id s =
     (case deleteLead e (JStr req_params_id) s of
        (Inr (Some response), s1) \<Rightarrow>
          (if response \<noteq> [] then Some (200, Message_json response) else None, s1)
      | (Inr None, s1) \<Rightarrow> (None, s1)
      | (Inl error, s1) \<Rightarrow>
          (if err_type error = JStr ''INVALID_ID_FORMAT'' then
             Some (400, Error_json (err_message error))
           else if err_type error = JStr ''NOT_FOUND'' then
             Some (404, Error_json (err_message error))
           else Some (500, Error_json ''Server Error''), s1))"

text \<open>\<^verbatim>\<open>app.post('/agents')\<close> (lines 281 to 300).\<close>

definition post_agents :: "env \<Rightarrow> jsobj \<Rightarrow> store \<Rightarrow> handled" where
  "post_agents e req_body s =
     (case createNewSalesAgent e req_body s of
        (Inr (Some agent), s1) \<Rightarrow> (Some (201, Agent_json agent), s1)
      | (Inr None, s1) \<Rightarrow> (None, s1)
      | (Inl error, s1) \<Rightarrow>
          (if err_type error = JStr ''INVALID_INPUT'' then
             Some (400, Error_json (err_message error))
           else if err_type error = JStr ''DUPLICATE_KEY'' then
             Some (409, Error_json (err_message error))
           else Some (500, Error_json ''Server Error.''), s1))"

text \<open>\<^verbatim>\<open>app.get('/agents')\<close> (lines 316 to 330).\<close>

definition get_agents :: "env \<Rightarrow> store \<Rightarrow> handled" where
  "get_agents e s =
     (case getAllSalesAgents e s of
        (Inr response, s1) \<Rightarrow> (Some (200, Agents_json response), s1)
      | (Inl error, s1) \<Rightarrow>
          (if err_type error = JStr ''NOT_FOUND'' then
             Some (404, Error_json (err_message error))
           else Some (500, Error_json ''Server Error.''), s1))"

text \<open>
  \<^verbatim>\<open>app.post('/leads/:id/comments')\<close> (lines 368 to 386): the switch has no
  default case.
\<close>

definition post_leads_id_comments :: "env \<Rightarrow> string \<Rightarrow> jsobj \<Rightarrow> store \<Rightarrow> handled" where
  "post_leads_id_comments e req_params_id req_body s =
     (case addComments e (JStr req_params_id) req_body s of
        (Inr addedComment, s1) \<Rightarrow> (Some (201, Comment_json addedComment), s1)
      | (Inl error, s1) \<Rightarrow>
          (if err_type error = JStr ''INVALID_LEAD_ID'' then
             Some (400, Error_json (err_message error))
           else if err_type error = JStr ''INVALID_AGENT_ID'' then
             Some (400, Error_json (err_message error))
           else if err_type error = JStr ''NOT_FOUND'' then
             Some (404, Error_json (err_message error))
           else if err_type error = JStr ''INVALID_INPUT'' then
             Some (400, Error_json (err_message error))
           else None, s1))"

text \<open>\<^verbatim>\<open>app.get('/leads/:id/comments')\<close> (lines 406 to 423).\<close>

definition get_leads_id_comments :: "env \<Rightarrow> string \<Rightarrow> store \<Rightarrow> handled" where
  "get_leads_id_comments e req_params_id s =
     (case getAllComments e (JStr req_params_id) s of
        (Inr allComments, s1) \<Rightarrow> (Some (200, Comments_json allComments), s1)
      | (Inl error, s1) \<Rightarrow>
          (if err_type error = JStr ''INVALID_ID_FORMAT'' then
             Some (400, Error_json (err_message error))
           else if err_type error = JStr ''NOT_FOUND'' then
             Some (404, Error_json (err_message error))
           else Some (500, Error_json ''Server Error.''), s1))"

text \<open>\<^verbatim>\<open>app.get('/report/last-week')\<close> (lines 443 to 457).\<close>

definition get_report_last_week :: "env \<Rightarrow> store \<Rightarrow> handled" where
  "get_report_last_week e s =
     (case leadsClosedLastWeek e s of
        (Inr closedLeads, s1) \<Rightarrow> (Some (200, Leads_json closedLeads), s1)
      | (Inl error, s1) \<Rightarrow>
          (if err_type error = JStr ''NOT_FOUND'' then
             Some (404, Error_json (err_message error))
           else Some (500, Error_json ''Server Error.''), s1))"

text \<open>\<^verbatim>\<open>app.get('/report/pipeline')\<close> (lines 473 to 487).\<close>

definition get_report_pipeline :: "env \<Rightarrow> store \<Rightarrow> handled" where
  "get_report_pipeline e s =
     (case getTotalLeadsInPipeline e s of
        (Inr totalLeadsNum, s1) \<Rightarrow>
          (if totalLeadsNum \<noteq> 0 then Some (200, Pipeline_json totalLeadsNum) else None, s1)
      | (Inl error, s1) \<Rightarrow>
          (if err_type error = JStr ''NOT_FOUND'' then
             Some (404, Error_json (err_message error))
           else Some (500, Error_json ''Server Error.''), s1))"

text \<open>\<^verbatim>\<open>app.post('/tags')\<close> (lines 515 to 531).\<close>

definition post_tags :: "env \<Rightarrow> jsobj \<Rightarrow> store \<Rightarrow> handled" where
  "post_tags e req_body s =
     (case addNewTag e req_body s of
        (Inr newTag, s1) \<Rightarrow> (Some (200, Message_json ''New Tag Created Successfully!''), s1)
      | (Inl error, s1) \<Rightarrow>
          (if err_type error = JStr ''INVALID_INPUT'' then
             Some (400, Error_json (err_message error))
           else if err_type error = JStr ''DUPLICATE_KEY'' then
             Some (409, Error_json (err_message error))
           else Some (500, Error_json ''Server Error.''), s1))"

text \<open>\<^verbatim>\<open>app.get('/tags')\<close> (lines 547 to 561).\<close>

definition get_tags :: "env \<Rightarrow> store \<Rightarrow> handled" where
  "get_tags e s =
     (case getAllTags e s of
        (Inr response, s1) \<Rightarrow> (Some (200, Tags_json response), s1)
      | (Inl error, s1) \<Rightarrow>
          (if err_type error = JStr ''NOT_FOUND'' then
             Some (404, Error_json (err_message error))
           else Some (500, Error_json ''Server Error.''), s1))"

section \<open>A concrete environment for the examples\<close>

text \<open>
  An identifier format for the examples: a string of 24 hexadecimal digits. The theorems
  hold for every \<open>isValid\<close>; the examples run with this one, with schemas that accept
  every document, a driver that never fails, a server on UTC (a calendar day is 24
  hours), and a query that matches a Lead when each queried path has the queried value.
\<close>

definition hex24 :: "jsval \<Rightarrow> bool" where
  "hex24 v =
     (case v of
        JStr s \<Rightarrow> length s = 24 \<and> list_all (\<lambda>c. c \<in> set ''0123456789abcdefABCDEF'') s
      | _ \<Rightarrow> False)"

definition env0 :: env where
  "env0 =
     \<lparr>isValid = hex24, now = 1700000000000, setDateBack = (\<lambda>n t. t - n * 86400000),
      genId = ''65f0000000000000000000aa'',
      faults = (\<lambda>c. None), leadErrors = (\<lambda>l. []), leadUpdateErrors = (\<lambda>u. []),
      agentErrors = (\<lambda>a. []), commentErrors = (\<lambda>c. []), tagErrors = (\<lambda>t. []),
      leadMatches = (\<lambda>q l. list_all (\<lambda>(k, v). lead_path k l = v) q)\<rparr>"

definition store0 :: store where
  "store0 = \<lparr>Leads = [], SalesAgents = [], Comments = [], Tags = [], oplog = []\<rparr>"

definition agent1 :: agent where
  "agent1 =
     \<lparr>agent_id = ''65f000000000000000000001'', agent_name = JStr ''Ann'',
      agent_email = JStr ''ann@x.com''\<rparr>"

text \<open>A driver failure that no catch block classifies.\<close>

definition network_error :: jserror where
  "network_error =
     \<lparr>err_name = JStr ''MongoNetworkError'', err_code = JUndefined, err_type = JUndefined,
      err_message = ''connection timed out'', err_errors = []\<rparr>"

definition failing_at :: "dbcall \<Rightarrow> env" where
  "failing_at c = env0\<lparr>faults := (\<lambda>c'. if c' = c then Some network_error else None)\<rparr>"



text \<open>A store with one agent, and the Lead that Create Lead makes for that agent.\<close>

definition store1 :: store where
  "store1 = store0\<lparr>SalesAgents := [agent1]\<rparr>"

definition details1 :: jsobj where
  "details1 =
     [(''name'', JStr ''Acme''), (''source'', JStr ''Website''),
      (''salesAgent'', JStr ''65f000000000000000000001''), (''timeToClose'', JNum 10)]"

definition lead1 :: lead where
  "lead1 =
     \<lparr>lead_id = ''65f0000000000000000000aa'', lead_name = JStr ''Acme'',
      lead_source = JStr ''Website'', lead_salesAgent = JStr ''65f000000000000000000001'',
      lead_status = JStr ''New'', lead_tags = JUndefined, lead_timeToClose = JNum 10,
      lead_priority = JUndefined, lead_closedAt = JUndefined\<rparr>"

definition store2 :: store where
  "store2 = store1\<lparr>Leads := [lead1]\<rparr>"

section \<open>Helper lemmas\<close>

lemma snd_catching [simp]: "snd (catching h r) = snd r"
  by (cases r) (auto simp: catching_def split: sum.splits)

lemma fst_catching_Inl: "fst (catching h r) = Inl x \<longleftrightarrow> (\<exists>y. fst r = Inl y \<and> x = h y)"
  by (cases r) (auto simp: catching_def split: sum.splits)

lemma catching_Inl [simp]: "catching h (Inl err, s) = (Inl (h err), s)"
  by (simp add: catching_def)

lemma catching_Inr [simp]: "catching h (Inr v, s) = (Inr v, s)"
  by (simp add: catching_def)

lemma rethrow_typed_error [simp]: "rethrow (typed_error t m) = typed_error t m"
  by (simp add: rethrow_def typed_error_def)

lemma Leads_logged [simp]: "Leads (logged c s) = Leads s"
  by (simp add: logged_def)




lemma Lead_findById_ok:
  "faults e Lead_findById_call = None \<Longrightarrow>
   Lead_findById e v s =
     (Inr (find (\<lambda>l. JStr (lead_id l) = v) (Leads s)), logged Lead_findById_call s)"
  by (simp add: Lead_findById_def)

lemma collections_logged [simp]:
  "SalesAgents (logged c s) = SalesAgents s" "Comments (logged c s) = Comments s"
  "Tags (logged c s) = Tags s" "oplog (logged c s) = oplog s @ [c]"
  by (simp_all add: logged_def)

lemma messages_nonempty:
  "salesAgent_message \<noteq> []" "status_message \<noteq> []" "source_message \<noteq> []"
  by (simp_all add: salesAgent_message_def status_message_def source_message_def)

lemma apply_set_paths:
  "\<forall>k \<in> set lead_paths.
     lead_path k (apply_set u l) = (if has_field u k then field u k else lead_path k l)"
  by (simp add: lead_paths_def lead_path_def apply_set_def set_path_def)

lemma apply_set_id: "lead_id (apply_set u l) = lead_id l"
  by (simp add: apply_set_def)

lemma update_first_found:
  "find P xs = Some prior \<Longrightarrow> update_first P f xs = update_first P (\<lambda>l. f prior) xs"
  by (induction xs) (auto split: if_splits)

lemmas example_defs =
  env0_def store0_def store1_def store2_def agent1_def details1_def lead1_def
  failing_at_def network_error_def hex24_def field_def has_field_def

section \<open>Create Lead: the salesAgent checks\<close>




section \<open>The closedAt invariant\<close>

text \<open>
  Create Lead keeps the invariant: the Lead it persists has closedAt set, to the time of
  the call, exactly when its status is Closed.
\<close>

lemma createNewLead_closedAt:
  assumes "fst (createNewLead e d s) = Inr l"
  shows "lead_closedAt l = (if lead_status l = JStr ''Closed'' then JNum (now e) else JUndefined)"
proof -
  from assms obtain s' where r: "createNewLead_try e d s = (Inr l, s')"
    by (cases "createNewLead_try e d s") (auto simp: createNewLead_def catching_def split: sum.splits)
  then have valid: "isValid e (field d ''salesAgent'')"
    by (auto simp: createNewLead_try_def Let_def split: if_splits)
  obtain x s1 where look: "SalesAgent_findById e (field d ''salesAgent'') s = (x, s1)"
    by (cases "SalesAgent_findById e (field d ''salesAgent'') s")
  with r valid obtain a where x: "x = Inr (Some a)"
    by (cases x) (auto simp: createNewLead_try_def Let_def split: option.splits)
  show ?thesis
  proof (cases "field d ''status'' = JStr ''Closed''")
    case True
    with r valid look x show ?thesis
      by (auto simp: createNewLead_try_def Let_def Lead_save_def new_Lead_def
          split: if_splits option.splits)
  next
    case False
    with r valid look x show ?thesis
      by (auto simp: createNewLead_try_def Let_def Lead_save_def new_Lead_def
          split: if_splits option.splits)
  qed
qed

text \<open>
  C2. The invariant "closedAt is set if and only if the status is Closed" does not survive
  Update Lead: \<^verbatim>\<open>updateLead\<close> hands the partial fields to the store and never sets
  closedAt. On a store holding the Lead that Create Lead made with status New, the update
  \<^verbatim>\<open>{status: "Closed"}\<close> returns and persists a Lead whose status is Closed and whose
  closedAt is unset.
\<close>

theorem updateLead_closes_without_closedAt:
  "createNewLead env0 details1 store1 =
     (Inr lead1, store2\<lparr>oplog := [SalesAgent_findById_call, Lead_save_call]\<rparr>)
   \<and> updateLead env0 (JStr ''65f0000000000000000000aa'') [(''status'', JStr ''Closed'')] store2 =
     (Inr (Some (lead1\<lparr>lead_status := JStr ''Closed''\<rparr>)),
      store2\<lparr>Leads := [lead1\<lparr>lead_status := JStr ''Closed''\<rparr>],
             oplog := [Lead_findById_call, Lead_findByIdAndUpdate_call]\<rparr>)
   \<and> lead_closedAt (lead1\<lparr>lead_status := JStr ''Closed''\<rparr>) = JUndefined"
  by (simp add: example_defs createNewLead_def createNewLead_try_def SalesAgent_findById_def
      Lead_save_def new_Lead_def Let_def updateLead_def updateLead_try_def Lead_findById_def
      Lead_findByIdAndUpdate_def apply_set_def set_path_def logged_def)

section \<open>List Leads: the filter checks\<close>

text \<open>
  C3 (as amended). For every List Leads call in which at least one filter is given a
  non-empty (truthy) value that violates its check (a salesAgent that is not a
  structurally valid identifier, a status outside the five values, a source outside the
  six), the result is one INVALID_INPUT failure whose message is "Invalid input: "
  followed by the messages of all violated filters, in the order salesAgent, status,
  source; the store is returned as it was, so no query was issued.
\<close>

theorem getAllLeads_violated_filters:
  assumes "(truthy (field q ''salesAgent'') \<and> \<not> isValid e (field q ''salesAgent''))
         \<or> (truthy (field q ''status'') \<and> field q ''status'' \<notin> set validStatuses)
         \<or> (truthy (field q ''source'') \<and> field q ''source'' \<notin> set validSources)"
  shows "getAllLeads e q s =
     (Inl (typed_error ''INVALID_INPUT''
        (''Invalid input: ''
          @ (if truthy (field q ''salesAgent'') \<and> \<not> isValid e (field q ''salesAgent'')
             then salesAgent_message else [])
          @ (if truthy (field q ''status'') \<and> field q ''status'' \<notin> set validStatuses
             then status_message else [])
          @ (if truthy (field q ''source'') \<and> field q ''source'' \<notin> set validSources
             then source_message else []))), s)"
proof -
  from assms have "filter_messages e q \<noteq> []"
    by (auto simp: filter_messages_def Let_def messages_nonempty)
  then show ?thesis
    by (simp add: getAllLeads_def Let_def) (simp add: filter_messages_def Let_def)
qed

theorem getAllLeads_violated_filters_witness:
  "getAllLeads env0 [(''status'', JStr ''Bogus'')] store2 =
     (Inl (typed_error ''INVALID_INPUT'' (''Invalid input: '' @ status_message)), store2)
   \<and> getAllLeads env0
       [(''salesAgent'', JStr ''xyz''), (''status'', JStr ''Bogus''), (''source'', JStr ''Fax'')]
       store2 =
     (Inl (typed_error ''INVALID_INPUT''
        (''Invalid input: '' @ salesAgent_message @ status_message @ source_message)), store2)"
  using getAllLeads_violated_filters [of "[(''status'', JStr ''Bogus'')]" env0 store2]
    getAllLeads_violated_filters
      [of "[(''salesAgent'', JStr ''xyz''), (''status'', JStr ''Bogus''), (''source'', JStr ''Fax'')]"
          env0 store2]
  by (simp add: example_defs validStatuses_def validSources_def)

text \<open>
  The claim as stated fails for an empty value: \<^verbatim>\<open>GET /leads?status=\<close> carries the
  status "", which is none of the five values, yet the guard \<^verbatim>\<open>if(status)\<close> skips
  the check; on the empty store the query is issued and the result is NOT_FOUND.
\<close>

theorem getAllLeads_empty_status_counterexample:
  "JStr [] \<notin> set validStatuses
   \<and> getAllLeads env0 [(''status'', JStr [])] store0 =
       (Inl (typed_error ''NOT_FOUND'' ''Lead Data Not Found.''),
        store0\<lparr>oplog := [Lead_find_call]\<rparr>)"
  by (simp add: example_defs validStatuses_def getAllLeads_def filter_messages_def
      Lead_find_populate_def logged_def)

section \<open>The list operations\<close>

text \<open>
  C4. For every List Leads, List Agents, List Comments and List Tags call that reaches
  the store query and gets its result: the result is NOT_FOUND exactly when the result
  set is empty, and otherwise the result set as the store returned it, in the store's
  order.
\<close>

theorem list_operations_not_found_iff_empty:
  "(filter_messages e q = [] \<and> faults e Lead_find_call = None \<longrightarrow>
      fst (getAllLeads e q s) =
        (if map (populate_salesAgent s) (filter (leadMatches e q) (Leads s)) = []
         then Inl (typed_error ''NOT_FOUND'' ''Lead Data Not Found.'')
         else Inr (map (populate_salesAgent s) (filter (leadMatches e q) (Leads s)))))
   \<and> (faults e SalesAgent_find_call = None \<longrightarrow>
      fst (getAllSalesAgents e s) =
        (if SalesAgents s = [] then Inl (typed_error ''NOT_FOUND'' ''Sales Agents Not Found.'')
         else Inr (SalesAgents s)))
   \<and> (isValid e leadId \<and> faults e Comment_find_call = None \<longrightarrow>
      fst (getAllComments e leadId s) =
        (if map (populate_author s) (filter (\<lambda>c. comment_lead c = leadId) (Comments s)) = []
         then Inl (typed_error ''NOT_FOUND''
                (''Comments for lead ID '' @ [CHR 0x27] @ js_string leadId @ [CHR 0x27]
                   @ '' not found.''))
         else Inr (map (populate_author s) (filter (\<lambda>c. comment_lead c = leadId) (Comments s)))))
   \<and> (faults e Tag_find_call = None \<longrightarrow>
      fst (getAllTags e s) =
        (if Tags s = [] then Inl (typed_error ''NOT_FOUND'' ''No Tags Found.'') else Inr (Tags s)))"
proof (intro conjI impI)
  assume "filter_messages e q = [] \<and> faults e Lead_find_call = None"
  then show "fst (getAllLeads e q s) =
        (if map (populate_salesAgent s) (filter (leadMatches e q) (Leads s)) = []
         then Inl (typed_error ''NOT_FOUND'' ''Lead Data Not Found.'')
         else Inr (map (populate_salesAgent s) (filter (leadMatches e q) (Leads s))))"
    by (simp add: getAllLeads_def Lead_find_populate_def)
next
  assume "faults e SalesAgent_find_call = None"
  then show "fst (getAllSalesAgents e s) =
        (if SalesAgents s = [] then Inl (typed_error ''NOT_FOUND'' ''Sales Agents Not Found.'')
         else Inr (SalesAgents s))"
    by (simp add: getAllSalesAgents_def SalesAgent_find_def)
next
  assume "isValid e leadId \<and> faults e Comment_find_call = None"
  then show "fst (getAllComments e leadId s) =
        (if map (populate_author s) (filter (\<lambda>c. comment_lead c = leadId) (Comments s)) = []
         then Inl (typed_error ''NOT_FOUND''
                (''Comments for lead ID '' @ [CHR 0x27] @ js_string leadId @ [CHR 0x27]
                   @ '' not found.''))
         else Inr (map (populate_author s) (filter (\<lambda>c. comment_lead c = leadId) (Comments s))))"
    by (simp add: getAllComments_def Comment_find_populate_def)
next
  assume "faults e Tag_find_call = None"
  then show "fst (getAllTags e s) =
        (if Tags s = [] then Inl (typed_error ''NOT_FOUND'' ''No Tags Found.'') else Inr (Tags s))"
    by (simp add: getAllTags_def Tag_find_def)
qed

theorem list_operations_not_found_iff_empty_witness:
  "fst (getAllLeads env0 [(''status'', JStr ''New'')] store2) =
     Inr [lead1\<lparr>lead_salesAgent :=
            JObj [(''_id'', JStr ''65f000000000000000000001''), (''name'', JStr ''Ann'')]\<rparr>]
   \<and> fst (getAllLeads env0 [(''status'', JStr ''Closed'')] store2) =
     Inl (typed_error ''NOT_FOUND'' ''Lead Data Not Found.'')
   \<and> fst (getAllSalesAgents env0 store2) = Inr [agent1]
   \<and> fst (getAllComments env0 (JStr ''65f0000000000000000000aa'') store2) =
     Inl (typed_error ''NOT_FOUND''
       (''Comments for lead ID '' @ [CHR 0x27] @ ''65f0000000000000000000aa'' @ [CHR 0x27]
          @ '' not found.''))
   \<and> fst (getAllTags env0 store2) = Inl (typed_error ''NOT_FOUND'' ''No Tags Found.'')"
  using list_operations_not_found_iff_empty
      [of env0 "[(''status'', JStr ''New'')]" store2 "JStr ''65f0000000000000000000aa''"]
    list_operations_not_found_iff_empty
      [of env0 "[(''status'', JStr ''Closed'')]" store2 "JStr ''65f0000000000000000000aa''"]
  by (simp add: example_defs filter_messages_def validStatuses_def populate_salesAgent_def
      lead_path_def)

section \<open>Unclassified failures\<close>

text \<open>
  The operations whose catch block ends with \<^verbatim>\<open>throw error\<close> hand an unclassified
  error on as it is.
\<close>

lemma rethrow_unclassified: "err_name err \<noteq> JStr ''ValidationError'' \<Longrightarrow> rethrow err = err"
  by (simp add: rethrow_def)

lemma operations_propagate_unclassified:
  assumes "err_name err \<noteq> JStr ''ValidationError''"
  shows "fst (createNewLead_try e d s) = Inl err \<Longrightarrow> fst (createNewLead e d s) = Inl err"
    and "fst (updateLead_try e i u s) = Inl err \<Longrightarrow> fst (updateLead e i u s) = Inl err"
    and "fst (addComments_try e i c s) = Inl err \<Longrightarrow> fst (addComments e i c s) = Inl err"
  using assms
  by (simp_all add: createNewLead_def updateLead_def addComments_def fst_catching_Inl
      rethrow_unclassified)

lemma addNewTag_propagates_unclassified:
  assumes "err_name err \<noteq> JStr ''ValidationError''" and "err_code err \<noteq> JNum 11000"
    and "fst (Tag_save e (new_Tag e (field t ''name'')) s) = Inl err"
  shows "fst (addNewTag e t s) = Inl err"
  using assms by (simp add: addNewTag_def fst_catching_Inl addNewTag_catch_def)

text \<open>The handlers whose switch has a default case answer an unmapped failure with 500.\<close>

lemma handlers_with_default_answer_500:
  "fst (createNewLead e b s) = Inl err \<Longrightarrow>
     err_type err \<notin> {JStr ''INVALID_ID_FORMAT'', JStr ''NOT_FOUND'', JStr ''INVALID_INPUT''} \<Longrightarrow>
     fst (post_leads e b s) = Some (500, Error_json ''Server Error.'')"
  "fst (updateLead e (JStr i) b s) = Inl err \<Longrightarrow>
     err_type err \<notin> {JStr ''INVALID_ID_FORMAT'', JStr ''NOT_FOUND'', JStr ''INVALID_INPUT''} \<Longrightarrow>
     fst (put_leads_id e i b s) = Some (500, Error_json ''Server Error'')"
  "fst (deleteLead e (JStr i) s) = Inl err \<Longrightarrow>
     err_type err \<notin> {JStr ''INVALID_ID_FORMAT'', JStr ''NOT_FOUND''} \<Longrightarrow>
     fst (delete_leads_id e i s) = Some (500, Error_json ''Server Error'')"
  "fst (createNewSalesAgent e b s) = Inl err \<Longrightarrow>
     err_type err \<notin> {JStr ''INVALID_INPUT'', JStr ''DUPLICATE_KEY''} \<Longrightarrow>
     fst (post_agents e b s) = Some (500, Error_json ''Server Error.'')"
  "fst (getAllSalesAgents e s) = Inl err \<Longrightarrow> err_type err \<noteq> JStr ''NOT_FOUND'' \<Longrightarrow>
     fst (get_agents e s) = Some (500, Error_json ''Server Error.'')"
  "fst (getAllComments e (JStr i) s) = Inl err \<Longrightarrow>
     err_type err \<notin> {JStr ''INVALID_ID_FORMAT'', JStr ''NOT_FOUND''} \<Longrightarrow>
     fst (get_leads_id_comments e i s) = Some (500, Error_json ''Server Error.'')"
  "fst (leadsClosedLastWeek e s) = Inl err \<Longrightarrow> err_type err \<noteq> JStr ''NOT_FOUND'' \<Longrightarrow>
     fst (get_report_last_week e s) = Some (500, Error_json ''Server Error.'')"
  "fst (getTotalLeadsInPipeline e s) = Inl err \<Longrightarrow> err_type err \<noteq> JStr ''NOT_FOUND'' \<Longrightarrow>
     fst (get_report_pipeline e s) = Some (500, Error_json ''Server Error.'')"
  "fst (addNewTag e b s) = Inl err \<Longrightarrow>
     err_type err \<notin> {JStr ''INVALID_INPUT'', JStr ''DUPLICATE_KEY''} \<Longrightarrow>
     fst (post_tags e b s) = Some (500, Error_json ''Server Error.'')"
  "fst (getAllTags e s) = Inl err \<Longrightarrow> err_type err \<noteq> JStr ''NOT_FOUND'' \<Longrightarrow>
     fst (get_tags e s) = Some (500, Error_json ''Server Error.'')"
  by (auto simp: post_leads_def put_leads_id_def delete_leads_id_def post_agents_def
      get_agents_def get_leads_id_comments_def get_report_last_week_def get_report_pipeline_def
      post_tags_def get_tags_def split: prod.splits sum.splits)

text \<open>
  The handlers answer the typed failures with 400, 404 and 409, as the status-code
  mapping has it.
\<close>

lemma mapped_failures_status:
  "fst (createNewLead e b s) = Inl (typed_error ''INVALID_ID_FORMAT'' m) \<Longrightarrow>
     fst (post_leads e b s) = Some (400, Error_json m)"
  "fst (createNewLead e b s) = Inl (typed_error ''NOT_FOUND'' m) \<Longrightarrow>
     fst (post_leads e b s) = Some (404, Error_json m)"
  "fst (getAllLeads e q s) = Inl (typed_error ''INVALID_INPUT'' m) \<Longrightarrow>
     fst (get_leads e q s) = Some (400, Error_json m)"
  "fst (addComments e (JStr i) b s) = Inl (typed_error ''INVALID_LEAD_ID'' m) \<Longrightarrow>
     fst (post_leads_id_comments e i b s) = Some (400, Error_json m)"
  "fst (addComments e (JStr i) b s) = Inl (typed_error ''INVALID_AGENT_ID'' m) \<Longrightarrow>
     fst (post_leads_id_comments e i b s) = Some (400, Error_json m)"
  "fst (createNewSalesAgent e b s) = Inl (typed_error ''DUPLICATE_KEY'' m) \<Longrightarrow>
     fst (post_agents e b s) = Some (409, Error_json m)"
  by (auto simp: post_leads_def get_leads_def post_leads_id_comments_def post_agents_def
      typed_error_def split: prod.splits sum.splits)

text \<open>
  C5. A persistence error that is neither a ValidationError nor a duplicate key should
  leave the operation unchanged. Create Agent does not do so: its catch block has no
  final \<^verbatim>\<open>throw error\<close>, so when the driver fails during the save,
  \<^verbatim>\<open>createNewSalesAgent\<close> returns \<^verbatim>\<open>undefined\<close> and the route sends no response,
  while \<^verbatim>\<open>addNewTag\<close> hands the same error on.
\<close>

theorem createNewSalesAgent_swallows_unclassified_error:
  "createNewSalesAgent (failing_at SalesAgent_save_call)
      [(''name'', JStr ''A''), (''email'', JStr ''a@x.com'')] store0 =
     (Inr None, store0\<lparr>oplog := [SalesAgent_save_call]\<rparr>)
   \<and> fst (post_agents (failing_at SalesAgent_save_call)
        [(''name'', JStr ''A''), (''email'', JStr ''a@x.com'')] store0) = None
   \<and> fst (addNewTag (failing_at Tag_save_call) [(''name'', JStr ''vip'')] store0) =
       Inl network_error"
  by (simp add: example_defs createNewSalesAgent_def post_agents_def SalesAgent_save_def
      new_SalesAgent_def logged_def addNewTag_def addNewTag_catch_def Tag_save_def new_Tag_def)

text \<open>
  C6. An unmapped failure should be answered with 500. The handlers of
  \<^verbatim>\<open>GET /leads\<close> and \<^verbatim>\<open>POST /leads/:id/comments\<close> have no default case: when the
  driver fails, the operation fails with the driver's error and the handler sends no
  response, while \<^verbatim>\<open>GET /agents\<close> answers the same failure with 500.
\<close>

theorem unmapped_failure_left_unanswered:
  "fst (getAllLeads (failing_at Lead_find_call) [] store2) = Inl network_error
   \<and> fst (get_leads (failing_at Lead_find_call) [] store2) = None
   \<and> fst (addComments (failing_at Comment_save_call) (JStr ''65f0000000000000000000aa'')
        [(''commentText'', JStr ''hello''), (''author'', JStr ''65f000000000000000000001'')]
        store2) = Inl network_error
   \<and> fst (post_leads_id_comments (failing_at Comment_save_call) ''65f0000000000000000000aa''
        [(''commentText'', JStr ''hello''), (''author'', JStr ''65f000000000000000000001'')]
        store2) = None
   \<and> fst (getAllSalesAgents (failing_at SalesAgent_find_call) store2) = Inl network_error
   \<and> fst (get_agents (failing_at SalesAgent_find_call) store2) =
       Some (500, Error_json ''Server Error.'')"
  by (simp add: example_defs getAllLeads_def get_leads_def filter_messages_def
      Lead_find_populate_def addComments_def addComments_try_def post_leads_id_comments_def
      Lead_findById_def Comment_save_def new_Comment_def logged_def rethrow_def
      getAllSalesAgents_def get_agents_def SalesAgent_find_def)

section \<open>Add Comment\<close>

text \<open>
  C7. For every Add Comment call: a leadId that is not structurally valid gives
  INVALID_LEAD_ID; an author that is not structurally valid (the leadId being valid)
  gives INVALID_AGENT_ID; a structurally valid leadId that no Lead has (the author being
  valid and the lookup returning) gives NOT_FOUND. The checks run in this order, each
  failure comes before any comment is persisted (the first two leave the store
  untouched, the third has issued the lookup only), and whenever one of the three
  conditions is violated, whatever the driver does, the Comment collection is unchanged
  and no save has been issued.
\<close>

theorem addComments_checks_in_order:
  "(\<not> isValid e leadId \<longrightarrow>
      addComments e leadId d s = (Inl (typed_error ''INVALID_LEAD_ID'' ''Invalid Lead ID.''), s))
   \<and> (isValid e leadId \<and> \<not> isValid e (field d ''author'') \<longrightarrow>
      addComments e leadId d s =
        (Inl (typed_error ''INVALID_AGENT_ID'' ''Invalid Sales Agent ID.''), s))
   \<and> (isValid e leadId \<and> isValid e (field d ''author'') \<and> faults e Lead_findById_call = None \<and>
       (\<forall>l \<in> set (Leads s). JStr (lead_id l) \<noteq> leadId) \<longrightarrow>
      addComments e leadId d s =
        (Inl (typed_error ''NOT_FOUND''
               (''Lead with ID '' @ [CHR 0x27] @ js_string leadId @ [CHR 0x27] @ '' not found.'')),
         logged Lead_findById_call s))
   \<and> (\<not> isValid e leadId \<or> \<not> isValid e (field d ''author'') \<or>
       (\<forall>l \<in> set (Leads s). JStr (lead_id l) \<noteq> leadId) \<longrightarrow>
      (\<exists>err. fst (addComments e leadId d s) = Inl err)
      \<and> Comments (snd (addComments e leadId d s)) = Comments s
      \<and> (oplog (snd (addComments e leadId d s)) = oplog s
         \<or> oplog (snd (addComments e leadId d s)) = oplog s @ [Lead_findById_call]))"
proof (intro conjI impI)
  assume "\<not> isValid e leadId"
  then show "addComments e leadId d s =
      (Inl (typed_error ''INVALID_LEAD_ID'' ''Invalid Lead ID.''), s)"
    by (simp add: addComments_def addComments_try_def)
next
  assume "isValid e leadId \<and> \<not> isValid e (field d ''author'')"
  then show "addComments e leadId d s =
      (Inl (typed_error ''INVALID_AGENT_ID'' ''Invalid Sales Agent ID.''), s)"
    by (simp add: addComments_def addComments_try_def)
next
  assume h: "isValid e leadId \<and> isValid e (field d ''author'') \<and>
       faults e Lead_findById_call = None \<and>
       (\<forall>l \<in> set (Leads s). JStr (lead_id l) \<noteq> leadId)"
  then have "find (\<lambda>l. JStr (lead_id l) = leadId) (Leads s) = None"
    by (simp add: find_None_iff)
  with h show "addComments e leadId d s =
        (Inl (typed_error ''NOT_FOUND''
               (''Lead with ID '' @ [CHR 0x27] @ js_string leadId @ [CHR 0x27] @ '' not found.'')),
         logged Lead_findById_call s)"
    by (simp add: addComments_def addComments_try_def Lead_findById_ok)
next
  assume v: "\<not> isValid e leadId \<or> \<not> isValid e (field d ''author'') \<or>
       (\<forall>l \<in> set (Leads s). JStr (lead_id l) \<noteq> leadId)"
  have "(\<exists>err. fst (addComments e leadId d s) = Inl err)
      \<and> Comments (snd (addComments e leadId d s)) = Comments s
      \<and> (oplog (snd (addComments e leadId d s)) = oplog s
         \<or> oplog (snd (addComments e leadId d s)) = oplog s @ [Lead_findById_call])"
  proof (cases "isValid e leadId \<and> isValid e (field d ''author'')")
    case False
    then show ?thesis by (auto simp: addComments_def addComments_try_def Let_def)
  next
    case True
    with v have "find (\<lambda>l. JStr (lead_id l) = leadId) (Leads s) = None"
      by (simp add: find_None_iff)
    with True show ?thesis
      by (cases "faults e Lead_findById_call")
        (simp_all add: addComments_def addComments_try_def Lead_findById_def Let_def)
  qed
  then show "\<exists>err. fst (addComments e leadId d s) = Inl err"
    and "Comments (snd (addComments e leadId d s)) = Comments s"
    and "oplog (snd (addComments e leadId d s)) = oplog s
         \<or> oplog (snd (addComments e leadId d s)) = oplog s @ [Lead_findById_call]"
    by simp_all
qed

theorem addComments_checks_in_order_witness:
  "addComments env0 (JStr ''bad'') [(''author'', JStr ''65f000000000000000000001'')] store2 =
     (Inl (typed_error ''INVALID_LEAD_ID'' ''Invalid Lead ID.''), store2)
   \<and> addComments env0 (JStr ''65f0000000000000000000aa'') [(''author'', JStr ''nope'')] store2 =
     (Inl (typed_error ''INVALID_AGENT_ID'' ''Invalid Sales Agent ID.''), store2)
   \<and> addComments env0 (JStr ''65f0000000000000000000bb'')
       [(''author'', JStr ''65f000000000000000000001'')] store2 =
     (Inl (typed_error ''NOT_FOUND''
        (''Lead with ID '' @ [CHR 0x27] @ ''65f0000000000000000000bb'' @ [CHR 0x27] @ '' not found.'')),
      store2\<lparr>oplog := [Lead_findById_call]\<rparr>)
   \<and> Comments (snd (addComments env0 (JStr ''65f0000000000000000000bb'')
       [(''author'', JStr ''65f000000000000000000001'')] store2)) = []"
  using addComments_checks_in_order
      [of env0 "JStr ''bad''" "[(''author'', JStr ''65f000000000000000000001'')]" store2]
    addComments_checks_in_order
      [of env0 "JStr ''65f0000000000000000000aa''" "[(''author'', JStr ''nope'')]" store2]
    addComments_checks_in_order
      [of env0 "JStr ''65f0000000000000000000bb''"
          "[(''author'', JStr ''65f000000000000000000001'')]" store2]
  by (simp add: example_defs logged_def)

section \<open>Update Lead\<close>

text \<open>
  C8. For every Update Lead call with a structurally valid id (the driver not failing):
  when no Lead has that id, the result is NOT_FOUND and the four collections are
  unchanged; when a Lead has it and the update passes validation, the returned record
  keeps the identifier of the prior record, every path that the update supplies has the
  supplied value, every path that it does not supply has its prior value, and the
  returned record replaces the prior one in the store.
\<close>

theorem updateLead_not_found_or_merged:
  "(isValid e leadId \<and> faults e Lead_findById_call = None \<and>
    (\<forall>l \<in> set (Leads s). JStr (lead_id l) \<noteq> leadId) \<longrightarrow>
      fst (updateLead e leadId u s) = Inl (typed_error ''NOT_FOUND'' ''Lead Not Found.'')
      \<and> Leads (snd (updateLead e leadId u s)) = Leads s
      \<and> SalesAgents (snd (updateLead e leadId u s)) = SalesAgents s
      \<and> Comments (snd (updateLead e leadId u s)) = Comments s
      \<and> Tags (snd (updateLead e leadId u s)) = Tags s)
   \<and> (isValid e leadId \<and> faults e Lead_findById_call = None \<and>
      faults e Lead_findByIdAndUpdate_call = None \<and> leadUpdateErrors e u = [] \<and>
      find (\<lambda>l. JStr (lead_id l) = leadId) (Leads s) = Some prior \<longrightarrow>
      (\<exists>updated.
         fst (updateLead e leadId u s) = Inr (Some updated)
         \<and> lead_id updated = lead_id prior
         \<and> (\<forall>k \<in> set lead_paths.
              lead_path k updated = (if has_field u k then field u k else lead_path k prior))
         \<and> Leads (snd (updateLead e leadId u s)) =
             update_first (\<lambda>l. JStr (lead_id l) = leadId) (\<lambda>l. updated) (Leads s)))"
proof (intro conjI impI)
  assume h: "isValid e leadId \<and> faults e Lead_findById_call = None \<and>
    (\<forall>l \<in> set (Leads s). JStr (lead_id l) \<noteq> leadId)"
  then have "find (\<lambda>l. JStr (lead_id l) = leadId) (Leads s) = None"
    by (simp add: find_None_iff)
  with h have r: "updateLead e leadId u s =
      (Inl (typed_error ''NOT_FOUND'' ''Lead Not Found.''), logged Lead_findById_call s)"
    by (simp add: updateLead_def updateLead_try_def Lead_findById_ok)
  show "fst (updateLead e leadId u s) = Inl (typed_error ''NOT_FOUND'' ''Lead Not Found.'')"
    by (simp add: r)
  show "Leads (snd (updateLead e leadId u s)) = Leads s" by (simp add: r)
  show "SalesAgents (snd (updateLead e leadId u s)) = SalesAgents s" by (simp add: r)
  show "Comments (snd (updateLead e leadId u s)) = Comments s" by (simp add: r)
  show "Tags (snd (updateLead e leadId u s)) = Tags s" by (simp add: r)
next
  assume h: "isValid e leadId \<and> faults e Lead_findById_call = None \<and>
      faults e Lead_findByIdAndUpdate_call = None \<and> leadUpdateErrors e u = [] \<and>
      find (\<lambda>l. JStr (lead_id l) = leadId) (Leads s) = Some prior"
  then have r: "updateLead e leadId u s =
      (Inr (Some (apply_set u prior)),
       logged Lead_findByIdAndUpdate_call
         ((logged Lead_findById_call s)
            \<lparr>Leads := update_first (\<lambda>l. JStr (lead_id l) = leadId) (apply_set u) (Leads s)\<rparr>))"
    by (simp add: updateLead_def updateLead_try_def Lead_findById_ok Lead_findByIdAndUpdate_def)
  show "\<exists>updated.
         fst (updateLead e leadId u s) = Inr (Some updated)
         \<and> lead_id updated = lead_id prior
         \<and> (\<forall>k \<in> set lead_paths.
              lead_path k updated = (if has_field u k then field u k else lead_path k prior))
         \<and> Leads (snd (updateLead e leadId u s)) =
             update_first (\<lambda>l. JStr (lead_id l) = leadId) (\<lambda>l. updated) (Leads s)"
  proof (intro exI conjI)
    show "fst (updateLead e leadId u s) = Inr (Some (apply_set u prior))" by (simp add: r)
    show "lead_id (apply_set u prior) = lead_id prior" by (rule apply_set_id)
    show "\<forall>k \<in> set lead_paths.
        lead_path k (apply_set u prior) = (if has_field u k then field u k else lead_path k prior)"
      by (rule apply_set_paths)
    from h have "update_first (\<lambda>l. JStr (lead_id l) = leadId) (apply_set u) (Leads s) =
        update_first (\<lambda>l. JStr (lead_id l) = leadId) (\<lambda>l. apply_set u prior) (Leads s)"
      by (intro update_first_found) simp
    then show "Leads (snd (updateLead e leadId u s)) =
        update_first (\<lambda>l. JStr (lead_id l) = leadId) (\<lambda>l. apply_set u prior) (Leads s)"
      by (simp add: r)
  qed
qed

theorem updateLead_not_found_or_merged_witness:
  "fst (updateLead env0 (JStr ''65f0000000000000000000bb'') [(''status'', JStr ''Contacted'')]
          store2) = Inl (typed_error ''NOT_FOUND'' ''Lead Not Found.'')
   \<and> Leads (snd (updateLead env0 (JStr ''65f0000000000000000000bb'')
          [(''status'', JStr ''Contacted'')] store2)) = [lead1]
   \<and> find (\<lambda>l. JStr (lead_id l) = JStr ''65f0000000000000000000aa'') (Leads store2) = Some lead1
   \<and> fst (updateLead env0 (JStr ''65f0000000000000000000aa'')
          [(''status'', JStr ''Contacted''), (''timeToClose'', JNum 20)] store2) =
       Inr (Some (lead1\<lparr>lead_status := JStr ''Contacted'', lead_timeToClose := JNum 20\<rparr>))
   \<and> Leads (snd (updateLead env0 (JStr ''65f0000000000000000000aa'')
          [(''status'', JStr ''Contacted''), (''timeToClose'', JNum 20)] store2)) =
       [lead1\<lparr>lead_status := JStr ''Contacted'', lead_timeToClose := JNum 20\<rparr>]"
  using updateLead_not_found_or_merged
      [of env0 "JStr ''65f0000000000000000000bb''" store2 "[(''status'', JStr ''Contacted'')]"]
    updateLead_not_found_or_merged
      [of env0 "JStr ''65f0000000000000000000aa''" store2
          "[(''status'', JStr ''Contacted''), (''timeToClose'', JNum 20)]" lead1]
  by (simp add: example_defs updateLead_def updateLead_try_def Lead_findById_def
      Lead_findByIdAndUpdate_def apply_set_def set_path_def logged_def)

section \<open>Leads closed last week\<close>

text \<open>
  C9 (as amended). For every Leads Closed Last Week call whose query completes, the
  returned list holds exactly the Leads whose closedAt is set and is not earlier than
  \<^verbatim>\<open>sevenDaysAgo\<close>, the current time moved seven calendar days back by
  \<^verbatim>\<open>setDate(getDate() - 7)\<close>, in the store's order, and the result is NOT_FOUND when
  there is none. Where seven calendar days back is 7 * 24 hours back, the bound is the
  current time minus 604800000 milliseconds. The query has this lower bound only: a
  closedAt later than the current time is returned as well.
\<close>

theorem leadsClosedLastWeek_lower_bound:
  "(faults e Lead_find_call = None \<longrightarrow>
     fst (leadsClosedLastWeek e s) =
       (if filter (\<lambda>l. \<exists>c. lead_closedAt l = JNum c \<and> setDateBack e 7 (now e) \<le> c) (Leads s) = []
        then Inl (typed_error ''NOT_FOUND'' ''No Closed Leads for Last Week found.'')
        else Inr (filter (\<lambda>l. \<exists>c. lead_closedAt l = JNum c \<and> setDateBack e 7 (now e) \<le> c)
                    (Leads s))))
   \<and> (faults e Lead_find_call = None \<and> setDateBack e 7 (now e) = now e - 604800000 \<longrightarrow>
     fst (leadsClosedLastWeek e s) =
       (if filter (\<lambda>l. \<exists>c. lead_closedAt l = JNum c \<and> now e - 604800000 \<le> c) (Leads s) = []
        then Inl (typed_error ''NOT_FOUND'' ''No Closed Leads for Last Week found.'')
        else Inr (filter (\<lambda>l. \<exists>c. lead_closedAt l = JNum c \<and> now e - 604800000 \<le> c)
                    (Leads s))))"
proof -
  have gte: "closedAt_gte t = (\<lambda>l. \<exists>c. lead_closedAt l = JNum c \<and> t \<le> c)" for t
    by (rule ext) (simp add: closedAt_gte_def split: jsval.splits)
  have general: "fst (leadsClosedLastWeek e s) =
       (if filter (\<lambda>l. \<exists>c. lead_closedAt l = JNum c \<and> setDateBack e 7 (now e) \<le> c) (Leads s) = []
        then Inl (typed_error ''NOT_FOUND'' ''No Closed Leads for Last Week found.'')
        else Inr (filter (\<lambda>l. \<exists>c. lead_closedAt l = JNum c \<and> setDateBack e 7 (now e) \<le> c)
                    (Leads s)))"
    if "faults e Lead_find_call = None"
    using that
    by (simp add: leadsClosedLastWeek_def Lead_find_closedAt_gte_def sevenDaysAgo_def gte)
  show ?thesis
  proof (intro conjI impI)
    assume "faults e Lead_find_call = None"
    then show "fst (leadsClosedLastWeek e s) =
       (if filter (\<lambda>l. \<exists>c. lead_closedAt l = JNum c \<and> setDateBack e 7 (now e) \<le> c) (Leads s) = []
        then Inl (typed_error ''NOT_FOUND'' ''No Closed Leads for Last Week found.'')
        else Inr (filter (\<lambda>l. \<exists>c. lead_closedAt l = JNum c \<and> setDateBack e 7 (now e) \<le> c)
                    (Leads s)))"
      by (rule general)
  next
    assume h: "faults e Lead_find_call = None \<and> setDateBack e 7 (now e) = now e - 604800000"
    then have "faults e Lead_find_call = None" by simp
    from general [OF this] h show "fst (leadsClosedLastWeek e s) =
       (if filter (\<lambda>l. \<exists>c. lead_closedAt l = JNum c \<and> now e - 604800000 \<le> c) (Leads s) = []
        then Inl (typed_error ''NOT_FOUND'' ''No Closed Leads for Last Week found.'')
        else Inr (filter (\<lambda>l. \<exists>c. lead_closedAt l = JNum c \<and> now e - 604800000 \<le> c)
                    (Leads s)))"
      by simp
  qed
qed

theorem leadsClosedLastWeek_lower_bound_witness:
  "setDateBack env0 7 (now env0) = now env0 - 604800000
   \<and> fst (leadsClosedLastWeek env0 store2) =
     Inl (typed_error ''NOT_FOUND'' ''No Closed Leads for Last Week found.'')
   \<and> fst (leadsClosedLastWeek env0
       (store2\<lparr>Leads := [lead1, lead1\<lparr>lead_closedAt := JNum 1699900000000\<rparr>,
                         lead1\<lparr>lead_closedAt := JNum 1600000000000\<rparr>]\<rparr>)) =
     Inr [lead1\<lparr>lead_closedAt := JNum 1699900000000\<rparr>]"
  using leadsClosedLastWeek_lower_bound [of env0 store2]
    leadsClosedLastWeek_lower_bound
      [of env0 "store2\<lparr>Leads := [lead1, lead1\<lparr>lead_closedAt := JNum 1699900000000\<rparr>,
                         lead1\<lparr>lead_closedAt := JNum 1600000000000\<rparr>]\<rparr>"]
  by (simp add: example_defs)

text \<open>
  The claim as stated fails for a closedAt in the future. Create Lead with status Closed
  sets closedAt to the current time; Update Lead with \<^verbatim>\<open>{closedAt: ...}\<close> moves it one
  day past the current time; the report still returns that Lead, whose closedAt is not
  within the last 7 days.
\<close>

theorem leadsClosedLastWeek_future_counterexample:
  "fst (leadsClosedLastWeek env0
     (snd (updateLead env0 (JStr ''65f0000000000000000000aa'')
        [(''closedAt'', JNum 1700086400000)]
        (snd (createNewLead env0 (details1 @ [(''status'', JStr ''Closed'')]) store1))))) =
     Inr [lead1\<lparr>lead_status := JStr ''Closed'', lead_closedAt := JNum 1700086400000\<rparr>]
   \<and> \<not> (1700086400000 \<le> now env0)"
  by (simp add: example_defs createNewLead_def createNewLead_try_def SalesAgent_findById_def
      Lead_save_def new_Lead_def Let_def updateLead_def updateLead_try_def Lead_findById_def
      Lead_findByIdAndUpdate_def apply_set_def set_path_def logged_def leadsClosedLastWeek_def
      Lead_find_closedAt_gte_def sevenDaysAgo_def closedAt_gte_def)

section \<open>Add Comment: the author reference\<close>

text \<open>
  C10. For every Add Comment call whose leadId and author are structurally valid and
  whose Lead exists (the driver not failing and the schema accepting the comment), the
  comment is persisted with the author it was given, and the SalesAgent collection is
  never consulted: when no agent has the author's identifier, the call succeeds all the
  same and the persisted author reference resolves to no record.
\<close>

theorem addComments_author_not_checked:
  assumes "isValid e leadId" and "isValid e (field d ''author'')"
    and "faults e Lead_findById_call = None" and "faults e Comment_save_call = None"
    and "\<exists>l \<in> set (Leads s). JStr (lead_id l) = leadId"
    and "commentErrors e (new_Comment e leadId (field d ''commentText'') (field d ''author'')) = []"
  shows "fst (addComments e leadId d s) =
           Inr (new_Comment e leadId (field d ''commentText'') (field d ''author''))
       \<and> Comments (snd (addComments e leadId d s)) =
           Comments s @ [new_Comment e leadId (field d ''commentText'') (field d ''author'')]
       \<and> oplog (snd (addComments e leadId d s)) =
           oplog s @ [Lead_findById_call, Comment_save_call]
       \<and> comment_author (new_Comment e leadId (field d ''commentText'') (field d ''author'')) =
           field d ''author''
       \<and> ((\<forall>a \<in> set (SalesAgents s). JStr (agent_id a) \<noteq> field d ''author'') \<longrightarrow>
            comment_author (populate_author (snd (addComments e leadId d s))
               (new_Comment e leadId (field d ''commentText'') (field d ''author''))) = JNull)"
proof -
  from assms(5) obtain l where "find (\<lambda>l. JStr (lead_id l) = leadId) (Leads s) = Some l"
    by (cases "find (\<lambda>l. JStr (lead_id l) = leadId) (Leads s)") (auto simp: find_None_iff)
  with assms have r: "addComments e leadId d s =
      (Inr (new_Comment e leadId (field d ''commentText'') (field d ''author'')),
       logged Comment_save_call ((logged Lead_findById_call s)
         \<lparr>Comments :=
            Comments s @ [new_Comment e leadId (field d ''commentText'') (field d ''author'')]\<rparr>))"
    by (simp add: addComments_def addComments_try_def Lead_findById_ok Comment_save_def Let_def)
  have "comment_author (populate_author (snd (addComments e leadId d s))
               (new_Comment e leadId (field d ''commentText'') (field d ''author''))) = JNull"
    if "\<forall>a \<in> set (SalesAgents s). JStr (agent_id a) \<noteq> field d ''author''"
  proof -
    from that have "find (\<lambda>a. JStr (agent_id a) = field d ''author'') (SalesAgents s) = None"
      by (simp add: find_None_iff)
    then show ?thesis by (simp add: r populate_author_def new_Comment_def)
  qed
  then show ?thesis by (simp add: r new_Comment_def logged_def)
qed

theorem addComments_author_not_checked_witness:
  "fst (addComments env0 (JStr ''65f0000000000000000000aa'')
          [(''commentText'', JStr ''hello''), (''author'', JStr ''65f0000000000000000000ff'')]
          store2) =
     Inr \<lparr>comment_id = ''65f0000000000000000000aa'',
          comment_lead = JStr ''65f0000000000000000000aa'', comment_commentText = JStr ''hello'',
          comment_author = JStr ''65f0000000000000000000ff'',
          comment_createdAt = JNum 1700000000000\<rparr>
   \<and> find (\<lambda>a. JStr (agent_id a) = JStr ''65f0000000000000000000ff'') (SalesAgents store2) = None
   \<and> length (Comments (snd (addComments env0 (JStr ''65f0000000000000000000aa'')
          [(''commentText'', JStr ''hello''), (''author'', JStr ''65f0000000000000000000ff'')]
          store2))) = 1
   \<and> comment_author (populate_author (snd (addComments env0 (JStr ''65f0000000000000000000aa'')
          [(''commentText'', JStr ''hello''), (''author'', JStr ''65f0000000000000000000ff'')]
          store2))
        (new_Comment env0 (JStr ''65f0000000000000000000aa'') (JStr ''hello'')
           (JStr ''65f0000000000000000000ff''))) = JNull"
  using addComments_author_not_checked
      [of env0 "JStr ''65f0000000000000000000aa''"
          "[(''commentText'', JStr ''hello''), (''author'', JStr ''65f0000000000000000000ff'')]"
          store2]
  by (simp add: example_defs new_Comment_def)

end
